theory Spec2Isabelle
  imports Complex_Main "HOL-Library.Multiset"
begin

section \<open>Python floats\<close>

text \<open>
  The scanner computes with Python floats (IEEE binary64).  A finite float is modelled by
  the rational number it denotes; every arithmetic operation of the source is the exact
  operation followed by \<open>fl\<close>, rounding to the nearest number with a 53-bit significand,
  ties to even.  The exponent range is not bounded here: the only place of the scanner
  where a result can leave the range of binary64 is the true division of two integers,
  which raises \<open>OverflowError\<close> in Python and is modelled so in \<open>int_truediv\<close>.
  Infinities and NaN are not values of the scanner's computations and are not modelled.
  Strings are lists of 8-bit characters, read as the code points below 256.
\<close>

function bit_length :: "int \<Rightarrow> int" where
  "bit_length n = (if n \<le> 0 then 0 else 1 + bit_length (n div 2))"
  by pat_completeness auto
termination
  by (relation "measure nat") auto

declare bit_length.simps [simp del]

definition round_half_even :: "rat \<Rightarrow> int" where
  "round_half_even x =
     (let f = \<lfloor>x\<rfloor>; d = x - of_int f
      in if d < 1 / 2 then f
         else if 1 / 2 < d then f + 1
         else if even f then f else f + 1)"

text \<open>\<open>ilog2 x\<close> is the integer \<open>e\<close> with \<open>2 ^ e \<le> \<bar>x\<bar> < 2 ^ (e + 1)\<close>, for \<open>x \<noteq> 0\<close>.\<close>

definition ilog2 :: "rat \<Rightarrow> int" where
  "ilog2 x =
     (if 1 \<le> \<bar>x\<bar> then bit_length \<lfloor>\<bar>x\<bar>\<rfloor> - 1
      else - bit_length (\<lceil>1 / \<bar>x\<bar>\<rceil> - 1))"

definition pow2 :: "int \<Rightarrow> rat" where
  "pow2 e = (if 0 \<le> e then 2 ^ nat e else 1 / 2 ^ nat (- e))"

definition fl :: "rat \<Rightarrow> rat" where
  "fl x =
     (if x = 0 then 0
      else let u = pow2 (ilog2 x - 52) in of_int (round_half_even (x / u)) * u)"

datatype py_error = OverflowError | TypeError | KeyError | ListingError | RegexError

definition int_truediv :: "int \<Rightarrow> int \<Rightarrow> py_error + rat" where
  \<comment> \<open>\<open>a / b\<close> on Python ints, \<open>b > 0\<close>: the correctly rounded quotient.\<close>
  "int_truediv a b =
     (let q = fl (of_int a / of_int b)
      in if 2 ^ 1024 \<le> \<bar>q\<bar> then Inl OverflowError else Inr q)"

definition py_round2 :: "rat \<Rightarrow> rat" where
  \<comment> \<open>\<open>round(x, 2)\<close> on a float: the exact value rounded to two decimals, as a float.\<close>
  "py_round2 x = fl (of_int (round_half_even (x * 100)) / 100)"

fun digits :: "nat \<Rightarrow> string" where
  "digits n =
     (if n < 10 then [char_of (48 + n)]
      else digits (n div 10) @ [char_of (48 + n mod 10)])"

declare digits.simps [simp del]

definition format_2f :: "rat \<Rightarrow> string" where
  \<comment> \<open>the format specification \<open>:.2f\<close>\<close>
  "format_2f x =
     (let n = nat (round_half_even (\<bar>x\<bar> * 100))
      in (if x < 0 then ''-'' else '''') @ digits (n div 100) @ ''.''
         @ digits (n mod 100 div 10) @ digits (n mod 10))"

section \<open>Resource scanner (scripts/cloud_analyzer.py)\<close>

definition EC2_COST_PER_HOUR :: rat where
  "EC2_COST_PER_HOUR = fl (23 / 1000)"

definition RDS_COST_PER_HOUR :: rat where
  "RDS_COST_PER_HOUR = fl (41 / 1000)"

definition S3_COST_PER_GB :: rat where
  "S3_COST_PER_GB = fl (23 / 1000)"

definition HOURS_PER_MONTH :: rat where
  "HOURS_PER_MONTH = 730"

text \<open>One row of the report, a dict with these six keys in the source.\<close>

record report_row =
  ResourceID :: string
  Service :: string
  ResourceType :: string
  UsageMetric :: string
  EstimatedCostUSD :: rat
  PotentialSavingsUSD :: rat

text \<open>
  \<open>sum([d["Average"] for d in metric["Datapoints"]])\<close>: the builtin starts from the int
  \<open>0\<close> and adds from the left, each float addition rounded.  (From Python 3.12 on the
  builtin compensates the rounding error of the additions; the scanner uses the sum only
  for the average that it compares with 5.)  The data points are finite floats.
\<close>

definition py_sum :: "rat list \<Rightarrow> rat" where
  "py_sum ds = foldl (\<lambda>acc d. fl (acc + d)) 0 ds"

definition avg_cpu :: "rat list \<Rightarrow> rat" where
  "avg_cpu datapoints =
     (if datapoints = [] then 0
      else fl (py_sum datapoints / of_nat (length datapoints)))"

text \<open>
  An EC2 instance as \<open>describe_instances\<close> returns it (the keys the scanner reads), and
  the CloudWatch answer as a function from the instance id to the \<open>Average\<close> values of
  its data points.
\<close>

record ec2_instance =
  InstanceId :: string
  InstanceType :: "string option"

definition ec2_row :: "(string \<Rightarrow> rat list) \<Rightarrow> ec2_instance \<Rightarrow> report_row" where
  "ec2_row cloudwatch inst =
     (let instance_id = InstanceId inst;
          cpu = avg_cpu (cloudwatch instance_id);
          est_cost = fl (EC2_COST_PER_HOUR * HOURS_PER_MONTH);
          potential_saving = (if cpu < 5 then est_cost else 0)
      in \<lparr>ResourceID = instance_id,
          Service = ''EC2'',
          ResourceType = (case InstanceType inst of Some t \<Rightarrow> t | None \<Rightarrow> ''unknown''),
          UsageMetric = ''CPU '' @ format_2f cpu @ ''%'',
          EstimatedCostUSD = py_round2 est_cost,
          PotentialSavingsUSD = py_round2 potential_saving\<rparr>)"

definition analyze_ec2 :: "ec2_instance list list \<Rightarrow> (string \<Rightarrow> rat list) \<Rightarrow> report_row list" where
  "analyze_ec2 reservations cloudwatch =
     concat (map (\<lambda>reservation. map (ec2_row cloudwatch) reservation) reservations)"

record db_instance =
  DBInstanceIdentifier :: string
  DBInstanceClass :: "string option"

definition rds_row :: "(string \<Rightarrow> rat list) \<Rightarrow> db_instance \<Rightarrow> report_row" where
  "rds_row cloudwatch db =
     (let db_id = DBInstanceIdentifier db;
          cpu = avg_cpu (cloudwatch db_id);
          est_cost = fl (RDS_COST_PER_HOUR * HOURS_PER_MONTH);
          potential_saving = (if cpu < 5 then est_cost else 0)
      in \<lparr>ResourceID = db_id,
          Service = ''RDS'',
          ResourceType = (case DBInstanceClass db of Some t \<Rightarrow> t | None \<Rightarrow> ''unknown''),
          UsageMetric = ''CPU '' @ format_2f cpu @ ''%'',
          EstimatedCostUSD = py_round2 est_cost,
          PotentialSavingsUSD = py_round2 potential_saving\<rparr>)"

definition analyze_rds :: "db_instance list \<Rightarrow> (string \<Rightarrow> rat list) \<Rightarrow> report_row list" where
  "analyze_rds instances cloudwatch = map (rds_row cloudwatch) instances"

text \<open>
  The object listing of a bucket: the paginator yields pages one after the other, and
  any of them may raise instead.  A page is the list of the \<open>Size\<close> values of its
  \<open>Contents\<close> (empty when the key is absent).  The loop adds sizes page by page; an
  exception leaves the \<open>try\<close> block before \<open>size_gb\<close> is assigned.
\<close>

type_synonym listing = "(py_error + int list) list"

fun sum_pages :: "int \<Rightarrow> listing \<Rightarrow> py_error + int" where
  "sum_pages total_size [] = Inr total_size"
| "sum_pages total_size (Inl e # pages) = Inl e"
| "sum_pages total_size (Inr contents # pages) =
     sum_pages (foldl (+) total_size contents) pages"

definition bucket_size_gb :: "listing \<Rightarrow> rat" where
  "bucket_size_gb pages =
     (case sum_pages 0 pages of
        Inl e \<Rightarrow> 0
      | Inr total_size \<Rightarrow>
          (case int_truediv total_size (1024 ^ 3) of Inl e \<Rightarrow> 0 | Inr q \<Rightarrow> q))"

definition s3_row :: "(string \<Rightarrow> listing) \<Rightarrow> string \<Rightarrow> report_row" where
  "s3_row paginate bucket_name =
     (let size_gb = bucket_size_gb (paginate bucket_name);
          est_cost = fl (size_gb * S3_COST_PER_GB);
          potential_saving = (if 1 < size_gb then fl (est_cost * (1 / 2)) else 0)
      in \<lparr>ResourceID = bucket_name,
          Service = ''S3'',
          ResourceType = ''Bucket'',
          UsageMetric = ''Size '' @ format_2f size_gb @ '' GB'',
          EstimatedCostUSD = py_round2 est_cost,
          PotentialSavingsUSD = py_round2 potential_saving\<rparr>)"

definition analyze_s3 :: "string list \<Rightarrow> (string \<Rightarrow> listing) \<Rightarrow> report_row list" where
  "analyze_s3 buckets paginate = map (s3_row paginate) buckets"

section \<open>Report dashboard (dashboard/dashboard.py)\<close>

subsection \<open>Data frames\<close>

text \<open>
  A pandas data frame is modelled by its column labels and its rows, each row holding one
  cell per label, in the order of the labels.  A cell is missing (NaN), a number or a
  string.  Numbers of the dashboard are finite floats, modelled by the rationals they
  denote; comparisons are exact, and the column sums are the exact sums (the rounding of
  float addition is not modelled in the dashboard).
\<close>

datatype cell = Null | Num rat | Str string

record frame =
  columns :: "string list"
  rows :: "cell list list"

definition rectangular :: "frame \<Rightarrow> bool" where
  "rectangular df = list_all (\<lambda>r. length r = length (columns df)) (rows df)"

definition cell_at :: "string list \<Rightarrow> cell list \<Rightarrow> string \<Rightarrow> cell" where
  \<comment> \<open>the cell of a row under a column label\<close>
  "cell_at hdr r c = (case map_of (zip hdr r) c of Some v \<Rightarrow> v | None \<Rightarrow> Null)"

definition column :: "frame \<Rightarrow> string \<Rightarrow> cell list" where
  \<comment> \<open>\<open>df[c]\<close>\<close>
  "column df c = map (\<lambda>r. cell_at (columns df) r c) (rows df)"

definition select :: "(cell list \<Rightarrow> bool) \<Rightarrow> frame \<Rightarrow> frame" where
  \<comment> \<open>\<open>df[mask]\<close>, the mask given row by row\<close>
  "select keep df = df\<lparr>rows := filter keep (rows df)\<rparr>"

subsection \<open>Loading and normalising\<close>

definition rename_columns :: "frame \<Rightarrow> frame" where
  "rename_columns df =
     df\<lparr>columns :=
          map (\<lambda>c. if c = ''EstimatedCostUSD'' then ''EstimatedCost''
                   else if c = ''PotentialSavingsUSD'' then ''PotentialSavings''
                   else c) (columns df)\<rparr>"

definition expected :: "string list" where
  "expected = [''ResourceID'', ''Service'', ''ResourceType'', ''UsageMetric'',
               ''EstimatedCost'', ''PotentialSavings'']"

definition default_cell :: "string \<Rightarrow> cell" where
  "default_cell col =
     (if col \<in> {''EstimatedCost'', ''PotentialSavings''} then Num 0 else Str [])"

definition add_column :: "string \<Rightarrow> cell \<Rightarrow> frame \<Rightarrow> frame" where
  \<comment> \<open>\<open>df[col] = v\<close> for a label that is not in the frame\<close>
  "add_column col v df =
     df\<lparr>columns := columns df @ [col], rows := map (\<lambda>r. r @ [v]) (rows df)\<rparr>"

definition ensure_columns :: "string list \<Rightarrow> frame \<Rightarrow> frame" where
  "ensure_columns cols df =
     fold (\<lambda>col d. if col \<notin> set (columns d) then add_column col (default_cell col) d else d)
       cols df"

text \<open>
  \<open>pd.to_numeric(..., errors="coerce")\<close> keeps numbers and missing cells and parses
  strings; \<open>parse\<close> is pandas' parser of one string, \<open>None\<close> where it fails.  On a
  label that names several columns \<open>df[c]\<close> is a frame and \<open>to_numeric\<close> raises.
\<close>

fun to_numeric :: "(string \<Rightarrow> rat option) \<Rightarrow> cell \<Rightarrow> cell" where
  "to_numeric parse Null = Null"
| "to_numeric parse (Num x) = Num x"
| "to_numeric parse (Str s) = (case parse s of Some x \<Rightarrow> Num x | None \<Rightarrow> Null)"

fun fillna0 :: "cell \<Rightarrow> cell" where
  "fillna0 Null = Num 0"
| "fillna0 (Num x) = Num x"
| "fillna0 (Str s) = Str s"

definition coerce_column :: "(string \<Rightarrow> rat option) \<Rightarrow> string \<Rightarrow> frame \<Rightarrow> py_error + frame" where
  "coerce_column parse c df =
     (if c \<notin> set (columns df) then Inl KeyError
      else if count_list (columns df) c \<noteq> 1 then Inl TypeError
      else Inr (df\<lparr>rows :=
                  map (\<lambda>r. map2 (\<lambda>n v. if n = c then fillna0 (to_numeric parse v) else v)
                              (columns df) r)
                    (rows df)\<rparr>))"

text \<open>
  The statements after the renaming are the same in both loaders (lines 22 to 29 of
  \<open>load_csv_local\<close>, lines 35 to 40 of \<open>load_csv_upload\<close>); they are \<open>normalize\<close>.
  The argument of a loader is the frame that \<open>pd.read_csv\<close> returned.
\<close>

definition normalize :: "(string \<Rightarrow> rat option) \<Rightarrow> frame \<Rightarrow> py_error + frame" where
  "normalize parse df =
     (case coerce_column parse ''EstimatedCost'' (ensure_columns expected df) of
        Inl e \<Rightarrow> Inl e
      | Inr df' \<Rightarrow> coerce_column parse ''PotentialSavings'' df')"

definition load_csv_local :: "(string \<Rightarrow> rat option) \<Rightarrow> frame \<Rightarrow> py_error + frame" where
  "load_csv_local parse df = normalize parse (rename_columns df)"

definition load_csv_upload :: "(string \<Rightarrow> rat option) \<Rightarrow> frame \<Rightarrow> py_error + frame" where
  "load_csv_upload parse df = normalize parse df"

subsection \<open>Filter widgets\<close>

fun insort_by :: "('a \<Rightarrow> 'a \<Rightarrow> bool) \<Rightarrow> 'a \<Rightarrow> 'a list \<Rightarrow> 'a list" where
  "insort_by le x [] = [x]"
| "insort_by le x (y # ys) = (if le x y then x # y # ys else y # insort_by le x ys)"

definition sort_by :: "('a \<Rightarrow> 'a \<Rightarrow> bool) \<Rightarrow> 'a list \<Rightarrow> 'a list" where
  "sort_by le xs = foldr (insort_by le) xs []"

fun str_le :: "string \<Rightarrow> string \<Rightarrow> bool" where
  "str_le [] t = True"
| "str_le (a # s) [] = False"
| "str_le (a # s) (b # t) =
     ((of_char a :: nat) < of_char b \<or> (a = b \<and> str_le s t))"

fun cell_le :: "cell \<Rightarrow> cell \<Rightarrow> bool" where
  "cell_le (Num x) (Num y) = (x \<le> y)"
| "cell_le (Str s) (Str t) = str_le s t"
| "cell_le a b = True"

fun is_num :: "cell \<Rightarrow> bool" where
  "is_num (Num x) = True"
| "is_num c = False"

fun is_str :: "cell \<Rightarrow> bool" where
  "is_str (Str s) = True"
| "is_str c = False"

definition dropna :: "cell list \<Rightarrow> cell list" where
  "dropna xs = filter (\<lambda>c. c \<noteq> Null) xs"

definition unique :: "cell list \<Rightarrow> cell list" where
  \<comment> \<open>the distinct values in the order of their first appearance\<close>
  "unique xs = rev (remdups (rev xs))"

text \<open>
  \<open>sorted(df["Service"].dropna().unique().tolist())\<close>, the options of the multi-select.
  Python's \<open>sorted\<close> raises on a list that mixes numbers and strings.
\<close>

definition services :: "frame \<Rightarrow> py_error + cell list" where
  "services df =
     (let vals = unique (dropna (column df ''Service''))
      in if list_all is_num vals \<or> list_all is_str vals then Inr (sort_by cell_le vals)
         else Inl TypeError)"

text \<open>The values of the four widgets; \<open>search_text\<close> is the text field as typed.\<close>

record controls =
  selected_services :: "cell list"
  savings_filter :: rat
  search_text :: string
  only_idle :: bool

definition is_space :: "char \<Rightarrow> bool" where
  \<comment> \<open>the characters below 256 that \<open>str.strip()\<close> removes, the next line (133) and
      the no-break space (160) among them\<close>
  "is_space ch =
     ((of_char ch :: nat) \<in> {9, 10, 11, 12, 13, 28, 29, 30, 31, 32, 133, 160})"

definition strip :: "string \<Rightarrow> string" where
  "strip s = rev (dropWhile is_space (rev (dropWhile is_space s)))"

subsection \<open>Applying the filters\<close>

text \<open>
  Comparisons of a float column with a number: NaN compares false.  The two numeric
  columns of a loaded frame hold numbers only, so the string case does not arise there.
\<close>

fun cell_gt :: "cell \<Rightarrow> rat \<Rightarrow> bool" where
  "cell_gt (Num x) t = (t < x)"
| "cell_gt c t = False"

fun cell_ge :: "cell \<Rightarrow> rat \<Rightarrow> bool" where
  "cell_ge (Num x) t = (t \<le> x)"
| "cell_ge c t = False"

fun astype_str :: "(rat \<Rightarrow> string) \<Rightarrow> cell \<Rightarrow> string" where
  \<comment> \<open>\<open>.astype(str)\<close>; \<open>num_str\<close> is Python's \<open>str\<close> on a number\<close>
  "astype_str num_str (Str s) = s"
| "astype_str num_str (Num x) = num_str x"
| "astype_str num_str Null = ''nan''"

text \<open>
  \<open>.str.contains(search_id, case=False, na=False)\<close> compiles \<open>search_id\<close> as a regular
  expression, ignoring case, and searches each string with it.  The regular expression
  engine is a parameter: \<open>re_compile pat\<close> is the error that compiling raises, or the
  search predicate of the compiled pattern.

  \<open>py_re_compile\<close> is Python's engine on the patterns whose only special character is
  the dot: every other character of such a pattern stands for itself, the case of letters
  ignored, and the dot for any character but the line feed; such a pattern always
  compiles.  On a pattern with another special character it is the parameter \<open>beyond\<close>.
\<close>

definition lower :: "char \<Rightarrow> char" where
  \<comment> \<open>the lower-case partner of a capital letter below 256 (A to Z, and 192 to 222
      but for the multiplication sign), as the engine pairs letters when it ignores case\<close>
  "lower ch =
     (let n = (of_char ch :: nat)
      in if (65 \<le> n \<and> n \<le> 90) \<or> (192 \<le> n \<and> n \<le> 222 \<and> n \<noteq> 215)
         then char_of (n + 32) else ch)"





definition f_filtered ::
  "(string \<Rightarrow> py_error + (string \<Rightarrow> bool)) \<Rightarrow> (rat \<Rightarrow> string) \<Rightarrow> frame \<Rightarrow> controls
     \<Rightarrow> py_error + frame" where
  "f_filtered re_compile num_str df w =
     (let hdr = columns df;
          f = select (\<lambda>r. cell_at hdr r ''Service'' \<in> set (selected_services w)) df;
          f = (if only_idle w
               then select (\<lambda>r. cell_gt (cell_at hdr r ''PotentialSavings'') 0) f else f);
          f = (if 0 < savings_filter w
               then select (\<lambda>r. cell_ge (cell_at hdr r ''PotentialSavings'') (savings_filter w)) f
               else f);
          search_id = strip (search_text w)
      in if search_id \<noteq> []
         then (case re_compile search_id of
                 Inl e \<Rightarrow> Inl e
               | Inr found \<Rightarrow>
                   Inr (select (\<lambda>r. found (astype_str num_str (cell_at hdr r ''ResourceID''))) f))
         else Inr f)"

subsection \<open>KPIs, table and download\<close>

fun num_of :: "cell \<Rightarrow> rat" where
  \<comment> \<open>the contribution of a cell to a column sum, which skips NaN\<close>
  "num_of (Num x) = x"
| "num_of c = 0"

definition total_cost :: "frame \<Rightarrow> rat" where
  "total_cost df = sum_list (map num_of (column df ''EstimatedCost''))"

definition total_savings :: "frame \<Rightarrow> rat" where
  "total_savings df = sum_list (map num_of (column df ''PotentialSavings''))"

definition flagged_count :: "frame \<Rightarrow> nat" where
  "flagged_count df = length (filter (\<lambda>c. cell_gt c 0) (column df ''PotentialSavings''))"

text \<open>
  \<open>sort_values("PotentialSavings", ascending=False)\<close>: larger numbers first, missing
  values last.  pandas does not fix the order of rows with equal keys; the model keeps
  their order.
\<close>

fun desc_le :: "cell \<Rightarrow> cell \<Rightarrow> bool" where
  "desc_le (Num x) (Num y) = (y \<le> x)"
| "desc_le (Num x) c = True"
| "desc_le c (Num y) = False"
| "desc_le c d = True"

definition f_sorted :: "frame \<Rightarrow> frame" where
  "f_sorted f =
     f\<lparr>rows := sort_by (\<lambda>a b. desc_le (cell_at (columns f) a ''PotentialSavings'')
                                     (cell_at (columns f) b ''PotentialSavings''))
                  (rows f)\<rparr>"

definition get_download_link :: "(frame \<Rightarrow> string) \<Rightarrow> frame \<Rightarrow> string \<Rightarrow> string" where
  \<comment> \<open>\<open>to_csv\<close> is pandas' serialiser with \<open>index=False\<close>; a string is its bytes\<close>
  "get_download_link to_csv df filename = to_csv df"

text \<open>
  One run of the script on a loaded frame: what it shows for the widget values \<open>w\<close>.
  The filters are applied first, so an error raised there ends the run.  The two charts,
  which the plotting library draws from the filtered view, are not part of the model.
\<close>

record page =
  kpi_total_cost :: rat
  kpi_total_savings :: rat
  kpi_flagged_count :: nat
  detail_table :: frame
  csv_bytes :: string

definition render ::
  "(string \<Rightarrow> py_error + (string \<Rightarrow> bool)) \<Rightarrow> (rat \<Rightarrow> string) \<Rightarrow> (frame \<Rightarrow> string)
     \<Rightarrow> frame \<Rightarrow> controls \<Rightarrow> py_error + page" where
  "render re_compile num_str to_csv df w =
     (case f_filtered re_compile num_str df w of
        Inl e \<Rightarrow> Inl e
      | Inr f \<Rightarrow>
          Inr \<lparr>kpi_total_cost = total_cost df,
               kpi_total_savings = total_savings df,
               kpi_flagged_count = flagged_count df,
               detail_table = f_sorted f,
               csv_bytes = get_download_link to_csv (f_sorted f) ''filtered_report.csv''\<rparr>)"

section \<open>Auxiliary definitions and example inputs\<close>

definition idle_vm :: ec2_instance where
  "idle_vm = \<lparr>InstanceId = ''i-idle'', InstanceType = Some ''t2.micro''\<rparr>"

definition busy_vm :: ec2_instance where
  "busy_vm = \<lparr>InstanceId = ''i-busy'', InstanceType = None\<rparr>"

definition silent_db :: db_instance where
  "silent_db = \<lparr>DBInstanceIdentifier = ''db-silent'', DBInstanceClass = Some ''db.t3.micro''\<rparr>"

definition cpu_metrics :: "string \<Rightarrow> rat list" where
  "cpu_metrics rid =
     (if rid = ''i-idle'' then [2, 4, 3]
      else if rid = ''i-busy'' then [10]
      else [])"

definition five_gb :: "string \<Rightarrow> listing" where
  "five_gb bucket_name = [Inr [4 * 1024 ^ 3], Inr [], Inr [1024 ^ 3]]"

definition half_gb :: "string \<Rightarrow> listing" where
  "half_gb bucket_name = [Inr [2 ^ 29]]"

definition broken_listing :: "string \<Rightarrow> listing" where
  "broken_listing bucket_name =
     (if bucket_name = ''locked'' then [Inr [7 * 1024 ^ 3], Inl ListingError]
      else [Inr [4 * 1024 ^ 3], Inr [], Inr [1024 ^ 3]])"

text \<open>The expected columns that a frame lacks, in the order in which they are added.\<close>

definition missing :: "string list \<Rightarrow> frame \<Rightarrow> string list" where
  "missing cols df = filter (\<lambda>c. c \<notin> set (columns df)) cols"

text \<open>The number that a cell holds or parses to, and 0 when there is none.\<close>

fun number_in :: "(string \<Rightarrow> rat option) \<Rightarrow> cell \<Rightarrow> rat" where
  "number_in parse (Num y) = y"
| "number_in parse (Str s) = (case parse s of Some y \<Rightarrow> y | None \<Rightarrow> 0)"
| "number_in parse Null = 0"

definition toy_parse :: "string \<Rightarrow> rat option" where
  "toy_parse s = (if s = ''12.5'' then Some (25 / 2) else None)"

definition legacy_report :: frame where
  "legacy_report =
     \<lparr>columns = [''ResourceID'', ''Service'', ''ResourceType'', ''UsageMetric'',
                 ''EstimatedCostUSD'', ''PotentialSavingsUSD''],
      rows = [[Str ''i-0abc'', Str ''EC2'', Str ''t2.micro'', Str ''CPU 3.00%'',
               Num (1679 / 100), Num (1679 / 100)]]\<rparr>"

definition refund_report :: frame where
  "refund_report =
     \<lparr>columns = [''ResourceID'', ''Service'', ''ResourceType'', ''UsageMetric'',
                 ''EstimatedCost'', ''PotentialSavings''],
      rows = [[Str ''i-0abc'', Str ''EC2'', Str ''t2.micro'', Str ''CPU 3.00%'',
               Num (- 5), Num (- 5)]]\<rparr>"

definition sparse_report :: frame where
  "sparse_report =
     \<lparr>columns = [''ResourceID'', ''EstimatedCost''],
      rows = [[Str ''i-1'', Str ''12.5''], [Str ''i-2'', Str ''n/a'']]\<rparr>"

definition sparse_loaded :: frame where
  "sparse_loaded =
     \<lparr>columns = [''ResourceID'', ''EstimatedCost'', ''Service'', ''ResourceType'',
                 ''UsageMetric'', ''PotentialSavings''],
      rows = [[Str ''i-1'', Num (25 / 2), Str [], Str [], Str [], Num 0],
              [Str ''i-2'', Num 0, Str [], Str [], Str [], Num 0]]\<rparr>"

text \<open>
  Stand-ins for the library functions in the examples: a search that takes the pattern
  literally and ignores the case of letters (what a regular expression without special
  characters does), and a serialiser that writes one line per row.
\<close>

fun starts_with :: "string \<Rightarrow> string \<Rightarrow> bool" where
  "starts_with [] s = True"
| "starts_with (a # pat) [] = False"
| "starts_with (a # pat) (b # s) = (a = b \<and> starts_with pat s)"

fun substring :: "string \<Rightarrow> string \<Rightarrow> bool" where
  "substring pat [] = (pat = [])"
| "substring pat (b # s) = (starts_with pat (b # s) \<or> substring pat s)"

definition ci_substring :: "string \<Rightarrow> string \<Rightarrow> bool" where
  "ci_substring pat s = substring (map lower pat) (map lower s)"

definition literal_search :: "string \<Rightarrow> py_error + (string \<Rightarrow> bool)" where
  "literal_search pat = Inr (ci_substring pat)"

fun cell_text :: "cell \<Rightarrow> string" where
  "cell_text (Str s) = s"
| "cell_text (Num x) = format_2f x"
| "cell_text Null = []"

fun join :: "string \<Rightarrow> string list \<Rightarrow> string" where
  "join sep [] = []"
| "join sep [s] = s"
| "join sep (s # t # ss) = s @ sep @ join sep (t # ss)"

definition toy_csv :: "frame \<Rightarrow> string" where
  "toy_csv df = join [CHR 0x0A] (join '','' (columns df) # map (\<lambda>r. join '','' (map cell_text r)) (rows df))"


definition three_rows :: frame where
  "three_rows =
     \<lparr>columns = [''ResourceID'', ''Service'', ''ResourceType'', ''UsageMetric'',
                 ''EstimatedCost'', ''PotentialSavings''],
      rows = [[Str ''i-1'', Str ''EC2'', Str ''t2.micro'', Str ''CPU 40.00%'', Num 20, Num 0],
              [Str ''i-2'', Str ''EC2'', Str ''t2.micro'', Str ''CPU 3.00%'', Num 50, Num 50],
              [Str ''b-1'', Str ''S3'', Str ''Bucket'', Str ''Size 900.00 GB'', Num 20, Num 10]]\<rparr>"

definition ec2_with_savings :: controls where
  "ec2_with_savings =
     \<lparr>selected_services = [Str ''EC2''], savings_filter = 0, search_text = [], only_idle = True\<rparr>"





definition all_services :: controls where
  "all_services =
     \<lparr>selected_services = [Str ''EC2'', Str ''S3''], savings_filter = 0, search_text = [],
      only_idle = False\<rparr>"

definition savings_report :: frame where
  "savings_report =
     \<lparr>columns = [''ResourceID'', ''Service'', ''ResourceType'', ''UsageMetric'',
                 ''EstimatedCost'', ''PotentialSavings''],
      rows = [[Str ''b-1'', Str ''S3'', Str ''Bucket'', Str ''Size 900.00 GB'', Num 20, Num 10],
              [Str ''i-2'', Str ''EC2'', Str ''t2.micro'', Str ''CPU 3.00%'', Num 50, Num 50],
              [Str ''i-1'', Str ''EC2'', Str ''t2.micro'', Str ''CPU 40.00%'', Num 20, Num 0]]\<rparr>"

definition unlabelled_report :: frame where
  "unlabelled_report =
     \<lparr>columns = [''ResourceID'', ''Service'', ''ResourceType'', ''UsageMetric'',
                 ''EstimatedCost'', ''PotentialSavings''],
      rows = [[Str ''i-2'', Str ''EC2'', Str ''t2.micro'', Str ''CPU 3.00%'', Num 50, Num 50],
              [Str ''x-9'', Null, Str ''Bucket'', Str ''Size 2.00 GB'', Num 7, Num 3]]\<rparr>"

definition ec2_only :: controls where
  "ec2_only =
     \<lparr>selected_services = [Str ''EC2''], savings_filter = 0, search_text = [], only_idle = False\<rparr>"

definition savings_sorted :: frame where
  "savings_sorted =
     \<lparr>columns = [''ResourceID'', ''Service'', ''ResourceType'', ''UsageMetric'',
                 ''EstimatedCost'', ''PotentialSavings''],
      rows = [[Str ''i-2'', Str ''EC2'', Str ''t2.micro'', Str ''CPU 3.00%'', Num 50, Num 50],
              [Str ''b-1'', Str ''S3'', Str ''Bucket'', Str ''Size 900.00 GB'', Num 20, Num 10],
              [Str ''i-1'', Str ''EC2'', Str ''t2.micro'', Str ''CPU 40.00%'', Num 20, Num 0]]\<rparr>"

section \<open>Properties of the scanner\<close>

lemma fl_0: "fl 0 = 0"
  by (simp add: fl_def)

lemma py_round2_0: "py_round2 0 = 0"
  by (simp add: py_round2_def round_half_even_def fl_def)

lemma ec2_cost_two_decimals:
  "py_round2 (fl (EC2_COST_PER_HOUR * HOURS_PER_MONTH)) = fl (EC2_COST_PER_HOUR * HOURS_PER_MONTH)"
  by code_simp

lemma rds_cost_two_decimals:
  "py_round2 (fl (RDS_COST_PER_HOUR * HOURS_PER_MONTH)) = fl (RDS_COST_PER_HOUR * HOURS_PER_MONTH)"
  by code_simp

lemma ec2_row_fields:
  "ResourceID (ec2_row cloudwatch inst) = InstanceId inst"
  "EstimatedCostUSD (ec2_row cloudwatch inst) = fl (EC2_COST_PER_HOUR * HOURS_PER_MONTH)"
  "PotentialSavingsUSD (ec2_row cloudwatch inst) =
     (if avg_cpu (cloudwatch (InstanceId inst)) < 5 then fl (EC2_COST_PER_HOUR * HOURS_PER_MONTH) else 0)"
  by (simp_all add: ec2_row_def Let_def ec2_cost_two_decimals py_round2_0)

lemma rds_row_fields:
  "ResourceID (rds_row cloudwatch db) = DBInstanceIdentifier db"
  "EstimatedCostUSD (rds_row cloudwatch db) = fl (RDS_COST_PER_HOUR * HOURS_PER_MONTH)"
  "PotentialSavingsUSD (rds_row cloudwatch db) =
     (if avg_cpu (cloudwatch (DBInstanceIdentifier db)) < 5 then fl (RDS_COST_PER_HOUR * HOURS_PER_MONTH) else 0)"
  by (simp_all add: rds_row_def Let_def rds_cost_two_decimals py_round2_0)

text \<open>
  Claim C4.  Every record that the EC2 or the RDS sub-scan emits has, as its estimated cost,
  the flat hourly rate of the service times 730 (the float product, which rounding to two
  decimals leaves as it is); its potential savings are the estimated cost when the average
  CPU utilisation of its data points is strictly below 5, and 0 otherwise; with no data
  point the average is 0, so the resource is flagged.
\<close>

theorem C4_idle_rule:
  "(r \<in> set (analyze_ec2 reservations cloudwatch) \<longrightarrow>
      EstimatedCostUSD r = fl (EC2_COST_PER_HOUR * HOURS_PER_MONTH) \<and>
      PotentialSavingsUSD r =
        (if avg_cpu (cloudwatch (ResourceID r)) < 5 then EstimatedCostUSD r else 0))
   \<and> (r \<in> set (analyze_rds instances cloudwatch) \<longrightarrow>
      EstimatedCostUSD r = fl (RDS_COST_PER_HOUR * HOURS_PER_MONTH) \<and>
      PotentialSavingsUSD r =
        (if avg_cpu (cloudwatch (ResourceID r)) < 5 then EstimatedCostUSD r else 0))
   \<and> avg_cpu [] = 0"
proof (intro conjI impI)
  assume "r \<in> set (analyze_ec2 reservations cloudwatch)"
  then obtain inst where r: "r = ec2_row cloudwatch inst"
    by (auto simp: analyze_ec2_def)
  show "EstimatedCostUSD r = fl (EC2_COST_PER_HOUR * HOURS_PER_MONTH)"
    by (simp add: r ec2_row_fields)
  show "PotentialSavingsUSD r =
        (if avg_cpu (cloudwatch (ResourceID r)) < 5 then EstimatedCostUSD r else 0)"
    by (simp add: r ec2_row_fields)
next
  assume "r \<in> set (analyze_rds instances cloudwatch)"
  then obtain db where r: "r = rds_row cloudwatch db"
    by (auto simp: analyze_rds_def)
  show "EstimatedCostUSD r = fl (RDS_COST_PER_HOUR * HOURS_PER_MONTH)"
    by (simp add: r rds_row_fields)
  show "PotentialSavingsUSD r =
        (if avg_cpu (cloudwatch (ResourceID r)) < 5 then EstimatedCostUSD r else 0)"
    by (simp add: r rds_row_fields)
next
  show "avg_cpu [] = 0" by (simp add: avg_cpu_def)
qed

lemma avg_idle: "avg_cpu [2, 4, 3] = 3" by code_simp
lemma avg_busy: "avg_cpu [10] = 10" by code_simp

text \<open>
  An instance with average CPU 3 is flagged with its whole cost, one with average CPU 10
  is not, and a database without data points is flagged.
\<close>

theorem C4_idle_rule_witness:
  "avg_cpu (cpu_metrics ''i-idle'') = 3
   \<and> PotentialSavingsUSD (ec2_row cpu_metrics idle_vm) = EstimatedCostUSD (ec2_row cpu_metrics idle_vm)
   \<and> EstimatedCostUSD (ec2_row cpu_metrics idle_vm) = fl (1679 / 100)
   \<and> avg_cpu (cpu_metrics ''i-busy'') = 10
   \<and> PotentialSavingsUSD (ec2_row cpu_metrics busy_vm) = 0
   \<and> cpu_metrics ''db-silent'' = []
   \<and> PotentialSavingsUSD (rds_row cpu_metrics silent_db) = EstimatedCostUSD (rds_row cpu_metrics silent_db)
   \<and> EstimatedCostUSD (rds_row cpu_metrics silent_db) = fl (2993 / 100)"
proof -
  have m1: "ec2_row cpu_metrics idle_vm \<in> set (analyze_ec2 [[idle_vm, busy_vm]] cpu_metrics)"
    and m2: "ec2_row cpu_metrics busy_vm \<in> set (analyze_ec2 [[idle_vm, busy_vm]] cpu_metrics)"
    and m3: "rds_row cpu_metrics silent_db \<in> set (analyze_rds [silent_db] cpu_metrics)"
    by (simp_all add: analyze_ec2_def analyze_rds_def)
  have ids: "ResourceID (ec2_row cpu_metrics idle_vm) = ''i-idle''"
    "ResourceID (ec2_row cpu_metrics busy_vm) = ''i-busy''"
    "ResourceID (rds_row cpu_metrics silent_db) = ''db-silent''"
    by (simp_all add: ec2_row_def rds_row_def Let_def idle_vm_def busy_vm_def silent_db_def)
  have cpu: "avg_cpu (cpu_metrics ''i-idle'') = 3" "avg_cpu (cpu_metrics ''i-busy'') = 10"
    "cpu_metrics ''db-silent'' = []"
    by (simp_all add: cpu_metrics_def avg_idle avg_busy)
  have c1: "fl (EC2_COST_PER_HOUR * HOURS_PER_MONTH) = fl (1679 / 100)" by code_simp
  have c2: "fl (RDS_COST_PER_HOUR * HOURS_PER_MONTH) = fl (2993 / 100)" by code_simp
  from C4_idle_rule [of "ec2_row cpu_metrics idle_vm" "[[idle_vm, busy_vm]]" cpu_metrics "[]"]
       C4_idle_rule [of "ec2_row cpu_metrics busy_vm" "[[idle_vm, busy_vm]]" cpu_metrics "[]"]
       C4_idle_rule [of "rds_row cpu_metrics silent_db" "[]" cpu_metrics "[silent_db]"]
       m1 m2 m3
  show ?thesis
    by (simp add: ids cpu c1 c2)
qed

lemma s3_row_fields:
  "ResourceID (s3_row paginate b) = b"
  "EstimatedCostUSD (s3_row paginate b) = py_round2 (fl (bucket_size_gb (paginate b) * S3_COST_PER_GB))"
  "PotentialSavingsUSD (s3_row paginate b) =
     (if 1 < bucket_size_gb (paginate b)
      then py_round2 (fl (fl (bucket_size_gb (paginate b) * S3_COST_PER_GB) * (1 / 2)))
      else 0)"
  by (simp_all add: s3_row_def Let_def py_round2_0)

text \<open>
  Claim C5, as the code has it.  Every record that the S3 sub-scan emits stores the product
  of the bucket's size in GB and the rate per GB, rounded to two decimals, as its estimated
  cost; as its potential savings it stores half of the unrounded product, rounded to two
  decimals, when the size strictly exceeds 1 GB, and 0 otherwise.
\<close>

theorem C5_s3_rule:
  "r \<in> set (analyze_s3 buckets paginate) \<Longrightarrow>
     EstimatedCostUSD r = py_round2 (fl (bucket_size_gb (paginate (ResourceID r)) * S3_COST_PER_GB))
     \<and> PotentialSavingsUSD r =
         (if 1 < bucket_size_gb (paginate (ResourceID r))
          then py_round2 (fl (fl (bucket_size_gb (paginate (ResourceID r)) * S3_COST_PER_GB) * (1 / 2)))
          else 0)"
proof -
  assume "r \<in> set (analyze_s3 buckets paginate)"
  then obtain b where "r = s3_row paginate b"
    by (auto simp: analyze_s3_def)
  then show ?thesis
    by (simp only: s3_row_fields)
qed

lemma size_five: "bucket_size_gb (five_gb b) = 5" 
  unfolding five_gb_def by code_simp

lemma size_half: "bucket_size_gb (half_gb b) = 1 / 2" 
  unfolding half_gb_def by code_simp

lemma half_gb_est: "py_round2 (fl (1 / 2 * S3_COST_PER_GB)) = fl (1 / 100)"
  by code_simp

lemma five_gb_est: "py_round2 (fl (5 * S3_COST_PER_GB)) = fl (11 / 100)"
  by code_simp

lemma five_gb_sav:
  "(if (1::rat) < 5 then py_round2 (fl (fl (5 * S3_COST_PER_GB) * (1 / 2))) else 0) = fl (6 / 100)"
  by code_simp

lemma half_gb_sav:
  "(if (1::rat) < 1 / 2 then py_round2 (fl (fl (1 / 2 * S3_COST_PER_GB) * (1 / 2))) else 0) = 0"
  by simp

text \<open>
  A bucket of 0.5 GB stores the cost 0.01 and the savings 0; a bucket of 5 GB stores the
  cost 0.11 and the savings 0.06.
\<close>

theorem C5_s3_rule_witness:
  "bucket_size_gb (half_gb ''small'') = 1 / 2
   \<and> EstimatedCostUSD (s3_row half_gb ''small'') = fl (1 / 100)
   \<and> PotentialSavingsUSD (s3_row half_gb ''small'') = 0
   \<and> bucket_size_gb (five_gb ''large'') = 5
   \<and> EstimatedCostUSD (s3_row five_gb ''large'') = fl (11 / 100)
   \<and> PotentialSavingsUSD (s3_row five_gb ''large'') = fl (6 / 100)"
proof -
  have m1: "s3_row half_gb ''small'' \<in> set (analyze_s3 [''small''] half_gb)"
    and m2: "s3_row five_gb ''large'' \<in> set (analyze_s3 [''large''] five_gb)"
    by (simp_all add: analyze_s3_def)
  have small: "EstimatedCostUSD (s3_row half_gb ''small'') = fl (1 / 100)
      \<and> PotentialSavingsUSD (s3_row half_gb ''small'') = 0"
    using C5_s3_rule [OF m1]
    unfolding s3_row_fields(1) size_half half_gb_est half_gb_sav .
  have large: "EstimatedCostUSD (s3_row five_gb ''large'') = fl (11 / 100)
      \<and> PotentialSavingsUSD (s3_row five_gb ''large'') = fl (6 / 100)"
    using C5_s3_rule [OF m2]
    unfolding s3_row_fields(1) size_five five_gb_est five_gb_sav .
  from small large size_half [of "''small''"] size_five [of "''large''"]
  show ?thesis by blast
qed

lemma stored_savings_not_half: "fl (6 / 100) \<noteq> 1 / 2 * fl (11 / 100)"
  by code_simp

lemma stored_cost_not_product: "fl (11 / 100) \<noteq> fl (5 * S3_COST_PER_GB)"
  by code_simp

text \<open>
  The record of a bucket of 5 GB: the unrounded cost is the float just below 0.115, so
  the stored cost is 0.11, not the product, and the stored savings, 0.06, are not half of
  the stored cost.
\<close>

theorem C5_five_gb_counterexample:
  "s3_row five_gb ''large'' \<in> set (analyze_s3 [''large''] five_gb)
   \<and> bucket_size_gb (five_gb ''large'') = 5
   \<and> EstimatedCostUSD (s3_row five_gb ''large'') \<noteq> fl (5 * S3_COST_PER_GB)
   \<and> PotentialSavingsUSD (s3_row five_gb ''large'')
       \<noteq> 1 / 2 * EstimatedCostUSD (s3_row five_gb ''large'')"
proof -
  have m: "s3_row five_gb ''large'' \<in> set (analyze_s3 [''large''] five_gb)"
    by (simp add: analyze_s3_def)
  have e: "EstimatedCostUSD (s3_row five_gb ''large'') = fl (11 / 100)"
    unfolding s3_row_fields size_five by (rule five_gb_est)
  have s: "PotentialSavingsUSD (s3_row five_gb ''large'') = fl (6 / 100)"
    unfolding s3_row_fields size_five by (rule five_gb_sav)
  show ?thesis
    unfolding e s using m size_five stored_savings_not_half stored_cost_not_product by blast
qed

lemma sum_pages_raises: "Inl e \<in> set pages \<Longrightarrow> \<exists>e'. sum_pages total_size pages = Inl e'"
proof (induction pages arbitrary: total_size)
  case Nil
  then show ?case by simp
next
  case (Cons p pages)
  then show ?case by (cases p) auto
qed

lemma failed_listing_size: "Inl e \<in> set pages \<Longrightarrow> bucket_size_gb pages = 0"
  using sum_pages_raises [of e pages 0] by (auto simp: bucket_size_gb_def)

lemma zero_size_row:
  "bucket_size_gb (paginate b) = 0 \<Longrightarrow>
     EstimatedCostUSD (s3_row paginate b) = 0 \<and> PotentialSavingsUSD (s3_row paginate b) = 0"
  by (simp add: s3_row_fields fl_0 py_round2_0)

lemma s3_row_cong: "paginate' b = paginate b \<Longrightarrow> s3_row paginate' b = s3_row paginate b"
  by (simp add: s3_row_def)

text \<open>
  Claim C9.  The S3 sub-scan emits one record per bucket, in the order of the buckets.
  When the listing of a bucket raises at any page, the size of that bucket is 0 and its
  record, which is emitted all the same, has estimated cost 0 and potential savings 0.
  The records of the other buckets do not depend on the listing of that bucket.
\<close>

theorem C9_listing_failure_swallowed:
  "map ResourceID (analyze_s3 buckets paginate) = buckets
   \<and> (\<forall>b \<in> set buckets. (\<exists>e. Inl e \<in> set (paginate b)) \<longrightarrow>
         s3_row paginate b \<in> set (analyze_s3 buckets paginate)
         \<and> bucket_size_gb (paginate b) = 0
         \<and> EstimatedCostUSD (s3_row paginate b) = 0
         \<and> PotentialSavingsUSD (s3_row paginate b) = 0)
   \<and> ((\<forall>b'. b' \<noteq> b \<longrightarrow> paginate' b' = paginate b') \<longrightarrow>
         (\<forall>i < length buckets. buckets ! i \<noteq> b \<longrightarrow>
            analyze_s3 buckets paginate' ! i = analyze_s3 buckets paginate ! i))"
proof (intro conjI ballI impI allI)
  show "map ResourceID (analyze_s3 buckets paginate) = buckets"
    by (induction buckets) (simp_all add: analyze_s3_def s3_row_fields)
next
  fix b assume "b \<in> set buckets"
  then show "s3_row paginate b \<in> set (analyze_s3 buckets paginate)"
    by (simp add: analyze_s3_def)
next
  fix b assume "\<exists>e. Inl e \<in> set (paginate b)"
  then show size0: "bucket_size_gb (paginate b) = 0"
    by (auto intro: failed_listing_size)
  from size0 show "EstimatedCostUSD (s3_row paginate b) = 0"
    by (simp add: zero_size_row)
  from size0 show "PotentialSavingsUSD (s3_row paginate b) = 0"
    by (simp add: zero_size_row)
next
  fix i
  assume same: "\<forall>b'. b' \<noteq> b \<longrightarrow> paginate' b' = paginate b'"
    and i: "i < length buckets" and other: "buckets ! i \<noteq> b"
  from same other have "paginate' (buckets ! i) = paginate (buckets ! i)" by simp
  then have "s3_row paginate' (buckets ! i) = s3_row paginate (buckets ! i)"
    by (rule s3_row_cong)
  with i show "analyze_s3 buckets paginate' ! i = analyze_s3 buckets paginate ! i"
    by (simp add: analyze_s3_def)
qed

text \<open>
  Three buckets, the second of which fails on its second page: three records, zeros for
  the second, and the third as it is when no listing fails.
\<close>

theorem C9_listing_failure_swallowed_witness:
  "map ResourceID (analyze_s3 [''first'', ''locked'', ''last''] broken_listing)
     = [''first'', ''locked'', ''last'']
   \<and> Inl ListingError \<in> set (broken_listing ''locked'')
   \<and> EstimatedCostUSD (s3_row broken_listing ''locked'') = 0
   \<and> PotentialSavingsUSD (s3_row broken_listing ''locked'') = 0
   \<and> analyze_s3 [''first'', ''locked'', ''last''] broken_listing ! 2
       = analyze_s3 [''first'', ''locked'', ''last''] five_gb ! 2"
proof -
  have bad: "Inl ListingError \<in> set (broken_listing ''locked'')"
    by (simp add: broken_listing_def)
  have mem: "''locked'' \<in> set [''first'', ''locked'', ''last'']"
    by simp
  have same: "\<forall>b'. b' \<noteq> ''locked'' \<longrightarrow> broken_listing b' = five_gb b'"
    by (simp add: broken_listing_def five_gb_def)
  have two: "(2::nat) < length [''first'', ''locked'', ''last'']"
    and other: "[''first'', ''locked'', ''last''] ! 2 \<noteq> ''locked''"
    by simp_all
  note t1 = C9_listing_failure_swallowed
         [of "[''first'', ''locked'', ''last'']" broken_listing "''locked''" broken_listing]
  note t2 = C9_listing_failure_swallowed
         [of "[''first'', ''locked'', ''last'']" five_gb "''locked''" broken_listing]
  from t1 have a: "map ResourceID (analyze_s3 [''first'', ''locked'', ''last''] broken_listing)
     = [''first'', ''locked'', ''last'']"
    by blast
  from t1 mem bad have b: "EstimatedCostUSD (s3_row broken_listing ''locked'') = 0
      \<and> PotentialSavingsUSD (s3_row broken_listing ''locked'') = 0"
    by blast
  from t2 same two other
  have c: "analyze_s3 [''first'', ''locked'', ''last''] broken_listing ! 2
       = analyze_s3 [''first'', ''locked'', ''last''] five_gb ! 2"
    by blast
  from a b c bad show ?thesis by blast
qed

section \<open>Properties of the dashboard\<close>

subsection \<open>Cells of a normalised frame\<close>

lemma map_of_zip_coerce:
  "map_of (zip hdr (map2 (\<lambda>n v. if n = c then g v else v) hdr r)) c' =
     (if c' = c then map_option g (map_of (zip hdr r) c) else map_of (zip hdr r) c')"
proof (induction hdr arbitrary: r)
  case Nil
  then show ?case by simp
next
  case (Cons h hdr)
  then show ?case by (cases r) auto
qed

lemma cell_at_coerce:
  "cell_at hdr (map2 (\<lambda>n v. if n = c then g v else v) hdr r) c' =
     (if c' = c \<and> c \<in> dom (map_of (zip hdr r)) then g (cell_at hdr r c) else cell_at hdr r c')"
  by (auto simp: cell_at_def map_of_zip_coerce split: option.splits)

lemma in_dom_zip: "length r = length hdr \<Longrightarrow> c \<in> set hdr \<Longrightarrow> c \<in> dom (map_of (zip hdr r))"
  by (metis domIff map_of_zip_is_None)

lemma cell_at_absent: "c \<notin> set hdr \<Longrightarrow> cell_at hdr r c = Null"
proof -
  assume "c \<notin> set hdr"
  then have "map_of (zip hdr r) c = None"
    by (metis in_set_zipE map_of_SomeD not_None_eq)
  then show ?thesis by (simp add: cell_at_def)
qed

lemma cell_at_append:
  "length r = length hdr \<Longrightarrow>
     cell_at (hdr @ ms) (r @ map d ms) c =
       (if c \<in> set hdr then cell_at hdr r c else if c \<in> set ms then d c else Null)"
proof -
  assume len: "length r = length hdr"
  have new: "map_of (zip ms (map d ms)) c = (if c \<in> set ms then Some (d c) else None)"
    by (induction ms) auto
  show ?thesis
  proof (cases "c \<in> set hdr")
    case True
    then obtain v where some: "map_of (zip hdr r) c = Some v"
      using in_dom_zip [OF len] by auto
    from True len show ?thesis
      by (simp add: cell_at_def zip_append map_add_def some)
  next
    case False
    then have none: "map_of (zip hdr r) c = None"
      by (metis in_set_zipE map_of_SomeD not_None_eq)
    from False len show ?thesis
      by (simp add: cell_at_def zip_append map_add_def none new)
  qed
qed

lemma ensure_columns_closed:
  "distinct cols \<Longrightarrow>
     ensure_columns cols df =
       df\<lparr>columns := columns df @ missing cols df,
          rows := map (\<lambda>r. r @ map default_cell (missing cols df)) (rows df)\<rparr>"
proof (induction cols arbitrary: df)
  case Nil
  then show ?case by (simp add: ensure_columns_def missing_def)
next
  case (Cons c cols)
  have step: "ensure_columns (c # cols) df =
      ensure_columns cols (if c \<notin> set (columns df) then add_column c (default_cell c) df else df)"
    by (simp add: ensure_columns_def)
  show ?case
  proof (cases "c \<in> set (columns df)")
    case True
    with Cons show ?thesis
      by (simp add: step missing_def)
  next
    case False
    from Cons.prems have notin: "c \<notin> set cols" by simp
    have m: "missing cols (add_column c (default_cell c) df) = missing cols df"
      using notin by (auto simp: missing_def add_column_def intro: filter_cong)
    have m': "missing (c # cols) df = c # missing cols df"
      using False by (simp add: missing_def)
    have "ensure_columns (c # cols) df = ensure_columns cols (add_column c (default_cell c) df)"
      using False by (simp add: step)
    also have "\<dots> = (add_column c (default_cell c) df)
         \<lparr>columns := columns (add_column c (default_cell c) df) @ missing cols df,
          rows := map (\<lambda>r. r @ map default_cell (missing cols df))
                    (rows (add_column c (default_cell c) df))\<rparr>"
      using Cons.IH [of "add_column c (default_cell c) df"] Cons.prems by (simp add: m)
    also have "\<dots> = df\<lparr>columns := columns df @ missing (c # cols) df,
          rows := map (\<lambda>r. r @ map default_cell (missing (c # cols) df)) (rows df)\<rparr>"
      by (simp add: m' add_column_def)
    finally show ?thesis .
  qed
qed

lemma distinct_expected: "distinct expected"
  by (simp add: expected_def)

lemma columns_ensure: "set (columns (ensure_columns expected df)) = set (columns df) \<union> set expected"
  by (auto simp: ensure_columns_closed [OF distinct_expected] missing_def)

lemma rectangular_ensure:
  "rectangular df \<Longrightarrow> rectangular (ensure_columns expected df)"
  by (simp add: ensure_columns_closed [OF distinct_expected] rectangular_def list_all_iff)

lemma rows_ensure: "length (rows (ensure_columns expected df)) = length (rows df)"
  by (simp add: ensure_columns_closed [OF distinct_expected])

lemma cell_at_ensure:
  assumes "rectangular df" and "i < length (rows df)"
  shows "cell_at (columns (ensure_columns expected df)) (rows (ensure_columns expected df) ! i) c =
     (if c \<in> set (columns df) then cell_at (columns df) (rows df ! i) c
      else if c \<in> set expected then default_cell c else Null)"
proof -
  from assms have len: "length (rows df ! i) = length (columns df)"
    by (simp add: rectangular_def list_all_length)
  show ?thesis
    using assms(2) cell_at_append [OF len, of "missing expected df" default_cell c]
    by (simp add: ensure_columns_closed [OF distinct_expected] missing_def)
qed

lemma coerce_column_Inr:
  "coerce_column p c df = Inr out \<Longrightarrow>
     c \<in> set (columns df) \<and> columns out = columns df
     \<and> rows out = map (\<lambda>r. map2 (\<lambda>n v. if n = c then fillna0 (to_numeric p v) else v)
                               (columns df) r) (rows df)"
  by (auto simp: coerce_column_def split: if_splits)

lemma normalize_columns:
  "normalize p df = Inr out \<Longrightarrow> columns out = columns (ensure_columns expected df)"
  by (auto simp: normalize_def split: sum.splits dest!: coerce_column_Inr)

lemma normalize_length:
  "normalize p df = Inr out \<Longrightarrow> length (rows out) = length (rows df)"
  by (auto simp: normalize_def rows_ensure split: sum.splits dest!: coerce_column_Inr)

lemma normalize_cell:
  assumes norm: "normalize p df = Inr out" and rect: "rectangular df"
    and i: "i < length (rows df)"
  shows "cell_at (columns out) (rows out ! i) c =
     (let v = (if c \<in> set (columns df) then cell_at (columns df) (rows df ! i) c
               else if c \<in> set expected then default_cell c else Null)
      in if c = ''EstimatedCost'' \<or> c = ''PotentialSavings'' then fillna0 (to_numeric p v) else v)"
proof -
  define E where "E = ensure_columns expected df"
  let ?g = "\<lambda>v. fillna0 (to_numeric p v)"
  define hdr where "hdr = columns E"
  define r where "r = rows E ! i"
  define r1 where "r1 = map2 (\<lambda>n v. if n = ''EstimatedCost'' then ?g v else v) hdr r"
  from norm obtain d1 where d1: "coerce_column p ''EstimatedCost'' E = Inr d1"
    and out: "coerce_column p ''PotentialSavings'' d1 = Inr out"
    by (auto simp: normalize_def E_def split: sum.splits)
  note c1 = coerce_column_Inr [OF d1] and c2 = coerce_column_Inr [OF out]
  have iE: "i < length (rows E)"
    using i by (simp add: E_def rows_ensure)
  have "rectangular E"
    using rect by (simp add: E_def rectangular_ensure)
  with iE have len: "length r = length hdr"
    by (simp add: rectangular_def list_all_length r_def hdr_def)
  have len1: "length r1 = length hdr"
    using len by (simp add: r1_def)
  have "set expected \<subseteq> set hdr"
    by (simp add: hdr_def E_def columns_ensure)
  then have ec: "''EstimatedCost'' \<in> set hdr" and ps: "''PotentialSavings'' \<in> set hdr"
    by (auto simp: expected_def)
  have row: "rows out ! i = map2 (\<lambda>n v. if n = ''PotentialSavings'' then ?g v else v) hdr r1"
    using c1 c2 iE by (simp add: hdr_def r_def r1_def)
  have hdr_out: "columns out = hdr"
    using c1 c2 by (simp add: hdr_def)
  have "cell_at (columns out) (rows out ! i) c =
      (if c = ''EstimatedCost'' \<or> c = ''PotentialSavings'' then ?g (cell_at hdr r c)
       else cell_at hdr r c)"
    unfolding hdr_out row
    by (simp add: cell_at_coerce r1_def [symmetric] in_dom_zip [OF len1 ps])
       (simp add: r1_def cell_at_coerce in_dom_zip [OF len ec])
  moreover have "cell_at hdr r c =
      (if c \<in> set (columns df) then cell_at (columns df) (rows df ! i) c
       else if c \<in> set expected then default_cell c else Null)"
    unfolding hdr_def r_def E_def by (rule cell_at_ensure [OF rect i])
  ultimately show ?thesis
    by (simp add: Let_def)
qed

subsection \<open>The two loaders\<close>

lemma rename_columns_simps:
  "rows (rename_columns df) = rows df"
  "length (columns (rename_columns df)) = length (columns df)"
  "rectangular (rename_columns df) = rectangular df"
  by (simp_all add: rename_columns_def rectangular_def)

lemma fillna0_to_numeric: "fillna0 (to_numeric parse v) = Num (number_in parse v)"
  by (cases v) (auto split: option.splits)

lemma count_list_distinct: "distinct xs \<Longrightarrow> x \<in> set xs \<Longrightarrow> count_list xs x = 1"
  by (induction xs) auto

lemma distinct_ensure: "distinct (columns df) \<Longrightarrow> distinct (columns (ensure_columns expected df))"
  using distinct_expected
  by (auto simp: ensure_columns_closed [OF distinct_expected] missing_def)

lemma normalize_total:
  assumes "distinct (columns df)"
  shows "\<exists>out. normalize parse df = Inr out"
proof -
  let ?E = "ensure_columns expected df"
  have d: "distinct (columns ?E)"
    using assms by (rule distinct_ensure)
  have "set expected \<subseteq> set (columns ?E)"
    by (simp add: columns_ensure)
  then have ec: "''EstimatedCost'' \<in> set (columns ?E)"
    and ps: "''PotentialSavings'' \<in> set (columns ?E)"
    by (auto simp: expected_def)
  from d ec ps show ?thesis
    by (simp add: normalize_def coerce_column_def count_list_distinct)
qed

text \<open>
  Claim C1.  The report that the scanner writes carries the legacy column names.  Loaded
  by path its costs are kept under the new names; loaded as an upload the legacy columns
  stay, and the columns EstimatedCost and PotentialSavings are created and filled with 0.
\<close>

theorem C1_upload_skips_rename:
  "load_csv_local toy_parse legacy_report =
     Inr \<lparr>columns = [''ResourceID'', ''Service'', ''ResourceType'', ''UsageMetric'',
                     ''EstimatedCost'', ''PotentialSavings''],
          rows = [[Str ''i-0abc'', Str ''EC2'', Str ''t2.micro'', Str ''CPU 3.00%'',
                   Num (1679 / 100), Num (1679 / 100)]]\<rparr>
   \<and> load_csv_upload toy_parse legacy_report =
     Inr \<lparr>columns = [''ResourceID'', ''Service'', ''ResourceType'', ''UsageMetric'',
                     ''EstimatedCostUSD'', ''PotentialSavingsUSD'',
                     ''EstimatedCost'', ''PotentialSavings''],
          rows = [[Str ''i-0abc'', Str ''EC2'', Str ''t2.micro'', Str ''CPU 3.00%'',
                   Num (1679 / 100), Num (1679 / 100), Num 0, Num 0]]\<rparr>
   \<and> load_csv_upload toy_parse legacy_report \<noteq> load_csv_local toy_parse legacy_report"
  by code_simp

lemma loader_normalize:
  assumes "(src = df \<and> load_csv_upload parse df = Inr out)
           \<or> (src = rename_columns df \<and> load_csv_local parse df = Inr out)"
  shows "normalize parse src = Inr out" and "rows src = rows df"
    and "rectangular src = rectangular df"
  using assms
  by (auto simp: load_csv_upload_def load_csv_local_def rename_columns_simps)

text \<open>
  Claim C8.  \<open>src\<close> is the frame that the statements after the renaming work on: the
  parsed file for the upload loader, the parsed file with the legacy names renamed for
  the path loader.  The loaded frame has the six expected columns; a numeric column that
  \<open>src\<close> lacks is filled with 0, a text column that it lacks is filled with the empty
  string, and a string that does not parse becomes 0 in the two numeric columns.
\<close>

theorem C8_expected_columns:
  assumes rect: "rectangular df"
    and load: "(src = df \<and> load_csv_upload parse df = Inr out)
               \<or> (src = rename_columns df \<and> load_csv_local parse df = Inr out)"
  shows "{''ResourceID'', ''Service'', ''ResourceType'', ''UsageMetric'',
          ''EstimatedCost'', ''PotentialSavings''} \<subseteq> set (columns out)
    \<and> (\<forall>c \<in> {''EstimatedCost'', ''PotentialSavings''}.
          c \<notin> set (columns src) \<longrightarrow> column out c = replicate (length (rows df)) (Num 0))
    \<and> (\<forall>c \<in> {''ResourceID'', ''Service'', ''ResourceType'', ''UsageMetric''}.
          c \<notin> set (columns src) \<longrightarrow> column out c = replicate (length (rows df)) (Str []))
    \<and> (\<forall>c \<in> {''EstimatedCost'', ''PotentialSavings''}. \<forall>i < length (rows df). \<forall>s.
          cell_at (columns src) (rows src ! i) c = Str s \<and> parse s = None \<longrightarrow>
            column out c ! i = Num 0)"
proof -
  note n = loader_normalize [OF load]
  from rect n have rs: "rectangular src" by simp
  have len: "length (rows out) = length (rows df)"
    using normalize_length [OF n(1)] n(2) by simp
  have cell: "cell_at (columns out) (rows out ! i) c =
     (let v = (if c \<in> set (columns src) then cell_at (columns src) (rows src ! i) c
               else if c \<in> set expected then default_cell c else Null)
      in if c = ''EstimatedCost'' \<or> c = ''PotentialSavings'' then fillna0 (to_numeric parse v) else v)"
    if "i < length (rows df)" for i c
    using normalize_cell [OF n(1) rs, of i c] that n(2) by simp
  have col: "column out c = replicate (length (rows df)) v"
    if "\<And>i. i < length (rows df) \<Longrightarrow> cell_at (columns out) (rows out ! i) c = v" for c v
    using that len by (intro nth_equalityI) (simp_all add: column_def)
  have "set expected \<subseteq> set (columns out)"
    by (simp add: normalize_columns [OF n(1)] columns_ensure)
  then have a: "{''ResourceID'', ''Service'', ''ResourceType'', ''UsageMetric'',
          ''EstimatedCost'', ''PotentialSavings''} \<subseteq> set (columns out)"
    by (simp add: expected_def)
  have b: "\<forall>c \<in> {''EstimatedCost'', ''PotentialSavings''}.
          c \<notin> set (columns src) \<longrightarrow> column out c = replicate (length (rows df)) (Num 0)"
    by (auto intro!: col simp: cell expected_def default_cell_def)
  have c: "\<forall>c \<in> {''ResourceID'', ''Service'', ''ResourceType'', ''UsageMetric''}.
          c \<notin> set (columns src) \<longrightarrow> column out c = replicate (length (rows df)) (Str [])"
    by (auto intro!: col simp: cell expected_def default_cell_def)
  have d: "\<forall>c \<in> {''EstimatedCost'', ''PotentialSavings''}. \<forall>i < length (rows df). \<forall>s.
          cell_at (columns src) (rows src ! i) c = Str s \<and> parse s = None \<longrightarrow>
            column out c ! i = Num 0"
  proof (intro ballI allI impI)
    fix c i s
    assume c: "c \<in> {''EstimatedCost'', ''PotentialSavings''}" and i: "i < length (rows df)"
      and s: "cell_at (columns src) (rows src ! i) c = Str s \<and> parse s = None"
    have "c \<in> set (columns src)"
      using s cell_at_absent [of c "columns src" "rows src ! i"] by auto
    with c i s len show "column out c ! i = Num 0"
      by (auto simp: column_def cell)
  qed
  from a b c d show ?thesis by blast
qed

lemma sparse_loads: "load_csv_upload toy_parse sparse_report = Inr sparse_loaded"
  by code_simp

text \<open>
  A file with the columns ResourceID and EstimatedCost only, whose second cost does not
  parse: the four other columns are created, and the second cost is 0.
\<close>

theorem C8_expected_columns_witness:
  "rectangular sparse_report
   \<and> load_csv_upload toy_parse sparse_report = Inr sparse_loaded
   \<and> ''Service'' \<in> set (columns sparse_loaded)
   \<and> column sparse_loaded ''PotentialSavings'' = [Num 0, Num 0]
   \<and> column sparse_loaded ''Service'' = [Str [], Str []]
   \<and> column sparse_loaded ''EstimatedCost'' ! 1 = Num 0"
proof -
  have rect: "rectangular sparse_report"
    by (simp add: sparse_report_def rectangular_def)
  have load: "(sparse_report = sparse_report \<and> load_csv_upload toy_parse sparse_report = Inr sparse_loaded)
      \<or> (sparse_report = rename_columns sparse_report
          \<and> load_csv_local toy_parse sparse_report = Inr sparse_loaded)"
    by (simp add: sparse_loads)
  have absent: "''PotentialSavings'' \<notin> set (columns sparse_report)"
    "''Service'' \<notin> set (columns sparse_report)"
    by (simp_all add: sparse_report_def)
  have n: "length (rows sparse_report) = 2" "replicate 2 v = [v, v]" for v :: cell
    by (simp_all add: sparse_report_def numeral_2_eq_2)
  have bad: "(1::nat) < length (rows sparse_report)"
    "cell_at (columns sparse_report) (rows sparse_report ! 1) ''EstimatedCost'' = Str ''n/a''
       \<and> toy_parse ''n/a'' = None"
    by (simp_all add: sparse_report_def cell_at_def toy_parse_def)
  note t = C8_expected_columns [OF rect load]
  from t have a: "''Service'' \<in> set (columns sparse_loaded)" by blast
  from t absent have b: "column sparse_loaded ''PotentialSavings'' = [Num 0, Num 0]"
    unfolding n by blast
  from t absent have c: "column sparse_loaded ''Service'' = [Str [], Str []]"
    unfolding n by blast
  from t bad have d: "column sparse_loaded ''EstimatedCost'' ! 1 = Num 0"
    by blast
  from rect sparse_loads a b c d show ?thesis by blast
qed

text \<open>
  Claim C6, as the code has it.  In every row of a loaded frame the cells under
  EstimatedCost and PotentialSavings are numbers: the number that the cell of \<open>src\<close>
  holds or parses to, and 0 where the cell is missing or does not parse or \<open>src\<close> lacks
  the column.  So the value is non-negative exactly when that number is; a negative number
  of the file is kept.
\<close>

theorem C6_numeric_cells:
  assumes rect: "rectangular df"
    and load: "(src = df \<and> load_csv_upload parse df = Inr out)
               \<or> (src = rename_columns df \<and> load_csv_local parse df = Inr out)"
    and c: "c = ''EstimatedCost'' \<or> c = ''PotentialSavings''"
    and i: "i < length (rows df)"
  shows "\<exists>x. cell_at (columns out) (rows out ! i) c = Num x
    \<and> x = (if c \<in> set (columns src)
            then number_in parse (cell_at (columns src) (rows src ! i) c) else 0)
    \<and> (0 \<le> x \<longleftrightarrow>
         (c \<in> set (columns src) \<longrightarrow>
            0 \<le> number_in parse (cell_at (columns src) (rows src ! i) c)))"
proof -
  note n = loader_normalize [OF load]
  from rect n have rs: "rectangular src" by simp
  from i n have i': "i < length (rows src)" by simp
  from c have "c \<in> set expected" by (auto simp: expected_def)
  with c show ?thesis
    using normalize_cell [OF n(1) rs i', of c]
    by (auto simp: fillna0_to_numeric default_cell_def Let_def)
qed

theorem C6_numeric_cells_witness:
  "rectangular sparse_report
   \<and> load_csv_upload toy_parse sparse_report = Inr sparse_loaded
   \<and> cell_at (columns sparse_loaded) (rows sparse_loaded ! 0) ''EstimatedCost'' = Num (25 / 2)
   \<and> cell_at (columns sparse_loaded) (rows sparse_loaded ! 1) ''EstimatedCost'' = Num 0
   \<and> cell_at (columns sparse_loaded) (rows sparse_loaded ! 1) ''PotentialSavings'' = Num 0"
proof -
  have rect: "rectangular sparse_report"
    by (simp add: sparse_report_def rectangular_def)
  have load: "(sparse_report = sparse_report \<and> load_csv_upload toy_parse sparse_report = Inr sparse_loaded)
      \<or> (sparse_report = rename_columns sparse_report
          \<and> load_csv_local toy_parse sparse_report = Inr sparse_loaded)"
    by (simp add: sparse_loads)
  have i: "0 < length (rows sparse_report)" "1 < length (rows sparse_report)"
    by (simp_all add: sparse_report_def)
  have src: "''EstimatedCost'' \<in> set (columns sparse_report)"
    "''PotentialSavings'' \<notin> set (columns sparse_report)"
    "number_in toy_parse (cell_at (columns sparse_report) (rows sparse_report ! 0) ''EstimatedCost'') = 25 / 2"
    "number_in toy_parse (cell_at (columns sparse_report) (rows sparse_report ! 1) ''EstimatedCost'') = 0"
    by (simp_all add: sparse_report_def cell_at_def toy_parse_def)
  from C6_numeric_cells [OF rect load, of "''EstimatedCost''" 0]
       C6_numeric_cells [OF rect load, of "''EstimatedCost''" 1]
       C6_numeric_cells [OF rect load, of "''PotentialSavings''" 1]
       i src rect sparse_loads
  show ?thesis by auto
qed

text \<open>
  A file whose cost and savings are - 5: both loaders keep the negative numbers.
\<close>

theorem C6_negative_counterexample:
  "load_csv_upload toy_parse refund_report = Inr refund_report
   \<and> load_csv_local toy_parse refund_report = Inr refund_report
   \<and> cell_at (columns refund_report) (rows refund_report ! 0) ''EstimatedCost'' = Num (- 5)
   \<and> cell_at (columns refund_report) (rows refund_report ! 0) ''PotentialSavings'' = Num (- 5)
   \<and> \<not> (0::rat) \<le> - 5"
  by code_simp

subsection \<open>The filtered view\<close>

lemma select_simps:
  "columns (select keep df) = columns df"
  "rows (select keep df) = filter keep (rows df)"
  by (simp_all add: select_def)













subsection \<open>KPIs\<close>

lemma sum_column:
  "sum_list (map num_of (column df c)) = (\<Sum>r\<leftarrow>rows df. num_of (cell_at (columns df) r c))"
  by (simp add: column_def comp_def)

lemma cell_gt_num_of: "cell_gt v 0 = (0 < num_of v)"
  by (cases v) simp_all

lemma count_column:
  "length (filter (\<lambda>v. cell_gt v 0) (column df c)) =
     length (filter (\<lambda>r. 0 < num_of (cell_at (columns df) r c)) (rows df))"
  by (simp add: column_def filter_map comp_def cell_gt_num_of)

lemma render_Inr:
  "render re_compile num_str to_csv df w = Inr pg \<Longrightarrow>
     \<exists>f. f_filtered re_compile num_str df w = Inr f
       \<and> kpi_total_cost pg = total_cost df
       \<and> kpi_total_savings pg = total_savings df
       \<and> kpi_flagged_count pg = flagged_count df
       \<and> detail_table pg = f_sorted f
       \<and> csv_bytes pg = to_csv (f_sorted f)"
  by (auto simp: render_def get_download_link_def split: sum.splits)

text \<open>
  Claim C3.  Whenever the page renders, its three KPIs are the sum of EstimatedCost over
  all rows of the dataset, the sum of PotentialSavings over all rows, and the number of
  rows with PotentialSavings above 0; so two renderings of the same dataset, under any two
  settings of the filter widgets, show the same three KPIs.
\<close>

theorem C3_kpis_unfiltered:
  assumes "render re_compile num_str to_csv df w = Inr pg"
    and "render re_compile num_str to_csv df w' = Inr pg'"
  shows "kpi_total_cost pg = (\<Sum>r\<leftarrow>rows df. num_of (cell_at (columns df) r ''EstimatedCost''))
    \<and> kpi_total_savings pg = (\<Sum>r\<leftarrow>rows df. num_of (cell_at (columns df) r ''PotentialSavings''))
    \<and> kpi_flagged_count pg =
        length (filter (\<lambda>r. 0 < num_of (cell_at (columns df) r ''PotentialSavings'')) (rows df))
    \<and> kpi_total_cost pg' = kpi_total_cost pg
    \<and> kpi_total_savings pg' = kpi_total_savings pg
    \<and> kpi_flagged_count pg' = kpi_flagged_count pg"
  using render_Inr [OF assms(1)] render_Inr [OF assms(2)]
  by (auto simp: total_cost_def total_savings_def flagged_count_def sum_column count_column)

lemma renders_ec2_with_savings:
  "\<not> isl (render literal_search format_2f toy_csv three_rows ec2_with_savings)"
  by code_simp

lemma renders_all_services:
  "\<not> isl (render literal_search format_2f toy_csv three_rows all_services)"
  by code_simp

text \<open>
  The dataset (EC2, 0), (EC2, 50), (S3, 10), once narrowed to the EC2 rows with savings and
  once with every service selected: total cost 90, total savings 60 and 2 flagged
  resources both times.
\<close>

theorem C3_kpis_unfiltered_witness:
  "\<exists>pg pg'. render literal_search format_2f toy_csv three_rows ec2_with_savings = Inr pg
     \<and> render literal_search format_2f toy_csv three_rows all_services = Inr pg'
     \<and> kpi_total_cost pg = 90 \<and> kpi_total_cost pg' = 90
     \<and> kpi_total_savings pg = 60 \<and> kpi_total_savings pg' = 60
     \<and> kpi_flagged_count pg = 2 \<and> kpi_flagged_count pg' = 2"
proof -
  obtain pg where pg: "render literal_search format_2f toy_csv three_rows ec2_with_savings = Inr pg"
    using renders_ec2_with_savings by (cases "render literal_search format_2f toy_csv three_rows ec2_with_savings") auto
  obtain pg' where pg': "render literal_search format_2f toy_csv three_rows all_services = Inr pg'"
    using renders_all_services by (cases "render literal_search format_2f toy_csv three_rows all_services") auto
  have sums: "(\<Sum>r\<leftarrow>rows three_rows. num_of (cell_at (columns three_rows) r ''EstimatedCost'')) = 90"
    "(\<Sum>r\<leftarrow>rows three_rows. num_of (cell_at (columns three_rows) r ''PotentialSavings'')) = 60"
    "length (filter (\<lambda>r. 0 < num_of (cell_at (columns three_rows) r ''PotentialSavings'')) (rows three_rows)) = 2"
    by (simp_all add: three_rows_def cell_at_def)
  from C3_kpis_unfiltered [OF pg pg'] pg pg' show ?thesis
    unfolding sums by auto
qed

subsection \<open>The detail table\<close>

lemma set_insort_by: "set (insort_by le x xs) = insert x (set xs)"
  by (induction xs) auto

lemma mset_insort_by: "mset (insort_by le x xs) = add_mset x (mset xs)"
  by (induction xs) auto

lemma mset_sort_by: "mset (sort_by le xs) = mset xs"
  by (induction xs) (simp_all add: sort_by_def mset_insort_by)

lemma set_sort_by: "set (sort_by le xs) = set xs"
  by (metis mset_sort_by set_mset_mset)

lemma sorted_insort_by:
  assumes total: "\<And>a b. le a b \<or> le b a" and trans: "\<And>a b c. le a b \<Longrightarrow> le b c \<Longrightarrow> le a c"
  shows "sorted_wrt le xs \<Longrightarrow> sorted_wrt le (insort_by le x xs)"
proof (induction xs)
  case Nil
  then show ?case by simp
next
  case (Cons y ys)
  show ?case
  proof (cases "le x y")
    case True
    with Cons.prems trans show ?thesis by auto
  next
    case False
    with total have "le y x" by blast
    with False Cons show ?thesis
      by (auto simp: set_insort_by)
  qed
qed

lemma sorted_sort_by:
  assumes "\<And>a b. le a b \<or> le b a" and "\<And>a b c. le a b \<Longrightarrow> le b c \<Longrightarrow> le a c"
  shows "sorted_wrt le (sort_by le xs)"
proof (induction xs)
  case Nil
  then show ?case by (simp add: sort_by_def)
next
  case (Cons x xs)
  have "sort_by le (x # xs) = insort_by le x (sort_by le xs)"
    by (simp add: sort_by_def)
  with Cons sorted_insort_by [of le, OF assms] show ?case by simp
qed

lemma desc_le_total: "desc_le a b \<or> desc_le b a"
  by (cases a; cases b) auto

lemma desc_le_trans: "desc_le a b \<Longrightarrow> desc_le b c \<Longrightarrow> desc_le a c"
  by (cases a; cases b; cases c) auto

lemma f_sorted_simps:
  "columns (f_sorted f) = columns f"
  "mset (rows (f_sorted f)) = mset (rows f)"
  "set (rows (f_sorted f)) = set (rows f)"
  by (simp_all add: f_sorted_def mset_sort_by set_sort_by)

lemma f_sorted_sorted:
  "sorted_wrt (\<lambda>a b. desc_le (cell_at (columns f) a ''PotentialSavings'')
                           (cell_at (columns f) b ''PotentialSavings''))
     (rows (f_sorted f))"
proof -
  let ?le = "\<lambda>a b. desc_le (cell_at (columns f) a ''PotentialSavings'')
                        (cell_at (columns f) b ''PotentialSavings'')"
  have "sorted_wrt ?le (sort_by ?le (rows f))"
  proof (rule sorted_sort_by)
    show "?le a b \<or> ?le b a" for a b
      by (rule desc_le_total)
    show "?le a b \<Longrightarrow> ?le b c \<Longrightarrow> ?le a c" for a b c
      by (rule desc_le_trans)
  qed
  then show ?thesis
    by (simp add: f_sorted_def)
qed

lemma f_filtered_subset:
  "f_filtered re_compile num_str df w = Inr f \<Longrightarrow>
     columns f = columns df \<and> set (rows f) \<subseteq> set (rows df)"
  by (auto simp: f_filtered_def Let_def select_simps split: if_splits sum.splits)

lemma loaded_numeric:
  assumes norm: "normalize parse src = Inr df" and rect: "rectangular src"
    and r: "r \<in> set (rows df)"
    and c: "c = ''EstimatedCost'' \<or> c = ''PotentialSavings''"
  shows "\<exists>x. cell_at (columns df) r c = Num x"
proof -
  from r obtain i where i: "i < length (rows df)" and ri: "rows df ! i = r"
    by (auto simp: in_set_conv_nth)
  from i have "i < length (rows src)"
    by (simp add: normalize_length [OF norm])
  from normalize_cell [OF norm rect this, of c] c ri show ?thesis
    by (auto simp: Let_def fillna0_to_numeric)
qed

text \<open>
  Claim C7.  For a dataset that one of the loaders returned and any widget values under
  which the page renders, the detail table has the rows of the filtered view, each as often
  as the view has it, ordered by PotentialSavings from the largest to the smallest, and
  the download is the serialisation of that very table.
\<close>

theorem C7_sorted_table:
  assumes rect: "rectangular raw"
    and load: "load_csv_upload parse raw = Inr df \<or> load_csv_local parse raw = Inr df"
    and run: "render re_compile num_str to_csv df w = Inr pg"
  shows "\<exists>f. f_filtered re_compile num_str df w = Inr f
     \<and> columns (detail_table pg) = columns f
     \<and> mset (rows (detail_table pg)) = mset (rows f)
     \<and> sorted_wrt (\<ge>) (map (\<lambda>r. num_of (cell_at (columns df) r ''PotentialSavings''))
                            (rows (detail_table pg)))
     \<and> csv_bytes pg = to_csv (detail_table pg)"
proof -
  from load obtain src where norm: "normalize parse src = Inr df" and "rectangular src = rectangular raw"
    by (auto simp: load_csv_upload_def load_csv_local_def rename_columns_simps)
  with rect have rs: "rectangular src" by simp
  from render_Inr [OF run] obtain f where f: "f_filtered re_compile num_str df w = Inr f"
    and table: "detail_table pg = f_sorted f" and csv: "csv_bytes pg = to_csv (f_sorted f)"
    by blast
  note sub = f_filtered_subset [OF f]
  let ?key = "\<lambda>r. cell_at (columns df) r ''PotentialSavings''"
  have num: "\<exists>x. ?key r = Num x" if "r \<in> set (rows (f_sorted f))" for r
    using that sub loaded_numeric [OF norm rs, of r "''PotentialSavings''"]
    by (auto simp: f_sorted_simps)
  have "sorted_wrt (\<lambda>a b. desc_le (?key a) (?key b)) (rows (f_sorted f))"
    using f_sorted_sorted [of f] sub by simp
  then have "sorted_wrt (\<lambda>a b. num_of (?key b) \<le> num_of (?key a)) (rows (f_sorted f))"
  proof (rule sorted_wrt_mono_rel [rotated])
    fix a b
    assume "a \<in> set (rows (f_sorted f))" "b \<in> set (rows (f_sorted f))"
      and "desc_le (?key a) (?key b)"
    with num [of a] num [of b] show "num_of (?key b) \<le> num_of (?key a)"
      by auto
  qed
  then have "sorted_wrt (\<ge>) (map (\<lambda>r. num_of (?key r)) (rows (f_sorted f)))"
    by (simp add: sorted_wrt_map)
  with f table csv show ?thesis
    by (auto simp: f_sorted_simps)
qed

lemma savings_report_loads: "load_csv_upload toy_parse savings_report = Inr savings_report"
  by code_simp

lemma renders_savings_report:
  "render literal_search format_2f toy_csv savings_report all_services =
     Inr \<lparr>kpi_total_cost = 90, kpi_total_savings = 60, kpi_flagged_count = 2,
          detail_table = savings_sorted, csv_bytes = toy_csv savings_sorted\<rparr>"
  by code_simp

text \<open>
  A loaded dataset with the savings 10, 50, 0 and every service selected: the table shows
  them in the order 50, 10, 0.
\<close>

theorem C7_sorted_table_witness:
  "rectangular savings_report
   \<and> load_csv_upload toy_parse savings_report = Inr savings_report
   \<and> map (\<lambda>r. num_of (cell_at (columns savings_report) r ''PotentialSavings''))
         (rows savings_report) = [10, 50, 0]
   \<and> (\<exists>pg. render literal_search format_2f toy_csv savings_report all_services = Inr pg
         \<and> map (\<lambda>r. num_of (cell_at (columns savings_report) r ''PotentialSavings''))
               (rows (detail_table pg)) = [50, 10, 0]
         \<and> sorted_wrt (\<ge>) [50, 10, 0 :: rat]
         \<and> csv_bytes pg = toy_csv (detail_table pg))"
proof -
  have rect: "rectangular savings_report"
    by (simp add: savings_report_def rectangular_def)
  have before: "map (\<lambda>r. num_of (cell_at (columns savings_report) r ''PotentialSavings''))
         (rows savings_report) = [10, 50, 0]"
    by (simp add: savings_report_def cell_at_def)
  have after: "map (\<lambda>r. num_of (cell_at (columns savings_report) r ''PotentialSavings''))
         (rows savings_sorted) = [50, 10, 0]"
    by (simp add: savings_report_def savings_sorted_def cell_at_def)
  from C7_sorted_table [OF rect disjI1 [OF savings_report_loads] renders_savings_report]
  have "sorted_wrt (\<ge>) (map (\<lambda>r. num_of (cell_at (columns savings_report) r ''PotentialSavings''))
         (rows savings_sorted))"
    by auto
  then have "sorted_wrt (\<ge>) [50, 10, 0 :: rat]"
    unfolding after .
  with rect savings_report_loads before after renders_savings_report show ?thesis
    by simp
qed

subsection \<open>Rows without a service\<close>

lemma set_unique: "set (unique xs) = set xs"
  by (simp add: unique_def)

lemma set_dropna: "set (dropna xs) = set xs - {Null}"
  by (auto simp: dropna_def)

lemma services_Inr:
  "services df = Inr options \<Longrightarrow> set options = set (column df ''Service'') - {Null}"
  by (auto simp: services_def Let_def set_sort_by set_unique set_dropna split: if_splits)

lemma f_filtered_service:
  "f_filtered re_compile num_str df w = Inr f \<Longrightarrow> r \<in> set (rows f) \<Longrightarrow>
     cell_at (columns df) r ''Service'' \<in> set (selected_services w)"
  by (auto simp: f_filtered_def Let_def select_simps split: if_splits sum.splits)

lemma sum_list_split:
  fixes g :: "'a \<Rightarrow> rat"
  shows "sum_list (map g xs) =
     sum_list (map g (filter P xs)) + sum_list (map g (filter (\<lambda>x. \<not> P x) xs))"
  by (induction xs) auto

lemma length_filter_split:
  "length (filter Q xs) =
     length (filter (\<lambda>x. P x \<and> Q x) xs) + length (filter (\<lambda>x. \<not> P x \<and> Q x) xs)"
  by (induction xs) auto

text \<open>
  Claim C10.  The options of the service multi-select are the values of the Service column
  other than the missing value.  For widget values whose selected services are among the
  options, no row of the filtered view has a missing Service, so every row of the dataset
  with a missing Service is left out.  The KPIs count those rows: each total is the
  contribution of the rows with a missing Service plus that of the other rows.
\<close>

theorem C10_missing_service_excluded:
  assumes opts: "services df = Inr options"
    and sel: "set (selected_services w) \<subseteq> set options"
    and run: "f_filtered re_compile num_str df w = Inr f"
  shows "set options = set (column df ''Service'') - {Null}
    \<and> (\<forall>r \<in> set (rows f). cell_at (columns df) r ''Service'' \<noteq> Null)
    \<and> (\<forall>r \<in> set (rows df). cell_at (columns df) r ''Service'' = Null \<longrightarrow> r \<notin> set (rows f))
    \<and> total_cost df =
        (\<Sum>r\<leftarrow>filter (\<lambda>r. cell_at (columns df) r ''Service'' = Null) (rows df).
            num_of (cell_at (columns df) r ''EstimatedCost''))
        + (\<Sum>r\<leftarrow>filter (\<lambda>r. cell_at (columns df) r ''Service'' \<noteq> Null) (rows df).
            num_of (cell_at (columns df) r ''EstimatedCost''))
    \<and> total_savings df =
        (\<Sum>r\<leftarrow>filter (\<lambda>r. cell_at (columns df) r ''Service'' = Null) (rows df).
            num_of (cell_at (columns df) r ''PotentialSavings''))
        + (\<Sum>r\<leftarrow>filter (\<lambda>r. cell_at (columns df) r ''Service'' \<noteq> Null) (rows df).
            num_of (cell_at (columns df) r ''PotentialSavings''))
    \<and> flagged_count df =
        length (filter (\<lambda>r. cell_at (columns df) r ''Service'' = Null
                           \<and> 0 < num_of (cell_at (columns df) r ''PotentialSavings'')) (rows df))
        + length (filter (\<lambda>r. cell_at (columns df) r ''Service'' \<noteq> Null
                           \<and> 0 < num_of (cell_at (columns df) r ''PotentialSavings'')) (rows df))"
proof -
  note o = services_Inr [OF opts]
  have kept: "cell_at (columns df) r ''Service'' \<noteq> Null" if "r \<in> set (rows f)" for r
    using f_filtered_service [OF run that] sel o by auto
  have cost: "total_cost df =
        (\<Sum>r\<leftarrow>filter (\<lambda>r. cell_at (columns df) r ''Service'' = Null) (rows df).
            num_of (cell_at (columns df) r ''EstimatedCost''))
        + (\<Sum>r\<leftarrow>filter (\<lambda>r. cell_at (columns df) r ''Service'' \<noteq> Null) (rows df).
            num_of (cell_at (columns df) r ''EstimatedCost''))"
    unfolding total_cost_def sum_column by (rule sum_list_split)
  have sav: "total_savings df =
        (\<Sum>r\<leftarrow>filter (\<lambda>r. cell_at (columns df) r ''Service'' = Null) (rows df).
            num_of (cell_at (columns df) r ''PotentialSavings''))
        + (\<Sum>r\<leftarrow>filter (\<lambda>r. cell_at (columns df) r ''Service'' \<noteq> Null) (rows df).
            num_of (cell_at (columns df) r ''PotentialSavings''))"
    unfolding total_savings_def sum_column by (rule sum_list_split)
  have cnt: "flagged_count df =
        length (filter (\<lambda>r. cell_at (columns df) r ''Service'' = Null
                           \<and> 0 < num_of (cell_at (columns df) r ''PotentialSavings'')) (rows df))
        + length (filter (\<lambda>r. cell_at (columns df) r ''Service'' \<noteq> Null
                           \<and> 0 < num_of (cell_at (columns df) r ''PotentialSavings'')) (rows df))"
    unfolding flagged_count_def count_column by (rule length_filter_split)
  from o kept cost sav cnt show ?thesis by blast
qed

lemma unlabelled_options: "services unlabelled_report = Inr [Str ''EC2'']"
  by code_simp

lemma unlabelled_view:
  "f_filtered literal_search format_2f unlabelled_report ec2_only =
     Inr \<lparr>columns = [''ResourceID'', ''Service'', ''ResourceType'', ''UsageMetric'',
                    ''EstimatedCost'', ''PotentialSavings''],
          rows = [[Str ''i-2'', Str ''EC2'', Str ''t2.micro'', Str ''CPU 3.00%'', Num 50, Num 50]]\<rparr>"
  by code_simp

text \<open>
  A loaded dataset with one EC2 row and one row without a service, every option selected:
  the row without a service is not in the view, and its cost 7 is part of the total 57.
\<close>

theorem C10_missing_service_excluded_witness:
  "load_csv_upload toy_parse unlabelled_report = Inr unlabelled_report
   \<and> services unlabelled_report = Inr [Str ''EC2'']
   \<and> selected_services ec2_only = [Str ''EC2'']
   \<and> [Str ''x-9'', Null, Str ''Bucket'', Str ''Size 2.00 GB'', Num 7, Num 3] \<in> set (rows unlabelled_report)
   \<and> (\<exists>f. f_filtered literal_search format_2f unlabelled_report ec2_only = Inr f
         \<and> [Str ''x-9'', Null, Str ''Bucket'', Str ''Size 2.00 GB'', Num 7, Num 3] \<notin> set (rows f))
   \<and> total_cost unlabelled_report = 7 + 50"
proof -
  have loads: "load_csv_upload toy_parse unlabelled_report = Inr unlabelled_report"
    by code_simp
  have sel: "set (selected_services ec2_only) \<subseteq> set [Str ''EC2'']"
    "selected_services ec2_only = [Str ''EC2'']"
    by (simp_all add: ec2_only_def)
  have row: "[Str ''x-9'', Null, Str ''Bucket'', Str ''Size 2.00 GB'', Num 7, Num 3] \<in> set (rows unlabelled_report)"
    "cell_at (columns unlabelled_report) [Str ''x-9'', Null, Str ''Bucket'', Str ''Size 2.00 GB'', Num 7, Num 3] ''Service'' = Null"
    by (simp_all add: unlabelled_report_def cell_at_def)
  have parts: "(\<Sum>r\<leftarrow>filter (\<lambda>r. cell_at (columns unlabelled_report) r ''Service'' = Null) (rows unlabelled_report).
            num_of (cell_at (columns unlabelled_report) r ''EstimatedCost'')) = 7"
    "(\<Sum>r\<leftarrow>filter (\<lambda>r. cell_at (columns unlabelled_report) r ''Service'' \<noteq> Null) (rows unlabelled_report).
            num_of (cell_at (columns unlabelled_report) r ''EstimatedCost'')) = 50"
    by (simp_all add: unlabelled_report_def cell_at_def)
  note t = C10_missing_service_excluded [OF unlabelled_options sel(1) unlabelled_view]
  from t row have out: "[Str ''x-9'', Null, Str ''Bucket'', Str ''Size 2.00 GB'', Num 7, Num 3]
      \<notin> set (rows \<lparr>columns = [''ResourceID'', ''Service'', ''ResourceType'', ''UsageMetric'',
                    ''EstimatedCost'', ''PotentialSavings''],
          rows = [[Str ''i-2'', Str ''EC2'', Str ''t2.micro'', Str ''CPU 3.00%'', Num 50, Num 50]]\<rparr>)"
    by blast
  from t have total: "total_cost unlabelled_report = 7 + 50"
    unfolding parts by blast
  from loads unlabelled_options sel(2) row(1) unlabelled_view out total show ?thesis
    by blast
qed

end
